theory Spec2Isabelle
  imports Main "HOL-Library.Word"
begin

section \<open>Errors\<close>

text \<open>
  Every way a call of the modelled code can fail is a value of this type. A failed
  \<open>dolfin_assert\<close> on a dimension argument is \<open>InvalidDimension\<close>, one on an entity index
  is \<open>InvalidIndex\<close>; an access the source performs outside a vector's bounds after its
  assertions have passed is \<open>UndefinedBehaviour\<close>; \<open>RuntimeError msg\<close> is what the logging
  function \<open>error(msg)\<close> raises.
\<close>

datatype error =
    InvalidDimension
  | InvalidIndex
  | UndefinedBehaviour
  | RuntimeError string

text \<open>
  Modelled from the spec: the macro \<open>dolfin_assert\<close> is used by MeshTopology.h and
  defined elsewhere. A violated assertion is a fatal precondition violation reported
  before any mutation: the call returns the error and the rest of the body does not run.
\<close>

definition dolfin_assert :: "bool \<Rightarrow> error \<Rightarrow> (error + 'a) \<Rightarrow> error + 'a" where
  "dolfin_assert check e rest = (if check then rest else Inl e)"

section \<open>MeshTopology (dolfin/mesh/MeshTopology.h)\<close>

text \<open>
  The private members of the class, one field each (\<open>_x\<close> is the field \<open>m_x\<close>).
  \<open>std::int32_t\<close> and \<open>unsigned int\<close> are 32-bit words, \<open>std::int64_t\<close> and
  \<open>std::size_t\<close> 64-bit words; a topological dimension, which only ever indexes a
  vector or a map, is a natural number.

  Modelled from the spec: the class MeshConnectivity is declared in MeshConnectivity.h;
  it is a ragged table, for each entity the sequence of the entities incident to it.
\<close>

type_synonym MeshConnectivity = "nat list list"

record MeshTopology =
  m_num_entities :: "32 word list"
  m_ghost_offset_index :: "64 word list"
  m_global_num_entities :: "64 word list"
  m_global_indices :: "64 word list list"
  m_shared_entities :: "nat \<rightharpoonup> (32 word \<rightharpoonup> 32 word set)"
  m_cell_owner :: "32 word list"
  m_connectivity :: "MeshConnectivity list list"

text \<open>
  \<open>set_global_index(dim, local_index, global_index)\<close>. The second assertion compares
  signed 32-bit values, the vector's size cast to \<open>std::int32_t\<close>; a negative
  \<open>local_index\<close> passes it, and the assignment then writes outside the vector.
\<close>

definition set_global_index ::
  "nat \<Rightarrow> 32 word \<Rightarrow> 64 word \<Rightarrow> MeshTopology \<Rightarrow> error + MeshTopology" where
  "set_global_index d local_index global_index t =
     dolfin_assert (d < length (m_global_indices t)) InvalidDimension
      (dolfin_assert
         (sint local_index < sint (word_of_nat (length (m_global_indices t ! d)) :: 32 word))
         InvalidIndex
         (if 0 \<le> sint local_index \<and> nat (sint local_index) < length (m_global_indices t ! d)
          then Inr (t\<lparr>m_global_indices := (m_global_indices t)
                 [d := (m_global_indices t ! d)[nat (sint local_index) := global_index]]\<rparr>)
          else Inl UndefinedBehaviour))"

text \<open>\<open>global_indices(d)\<close>: the local-to-global index map of dimension \<open>d\<close>.\<close>

definition global_indices :: "MeshTopology \<Rightarrow> nat \<Rightarrow> error + 64 word list" where
  "global_indices t d =
     dolfin_assert (d < length (m_global_indices t)) InvalidDimension
       (Inr (m_global_indices t ! d))"

text \<open>\<open>have_global_indices(dim)\<close>: \<open>!_global_indices[dim].empty()\<close>.\<close>

definition have_global_indices :: "MeshTopology \<Rightarrow> nat \<Rightarrow> error + bool" where
  "have_global_indices t d =
     dolfin_assert (d < length (m_global_indices t)) InvalidDimension
       (Inr (m_global_indices t ! d \<noteq> []))"

text \<open>
  \<open>have_shared_entities(dim)\<close>: a lookup of the key \<open>dim\<close> in the map
  \<open>_shared_entities\<close>. The body has no assertion and no other way to fail; the result
  type is that of the sibling accessors so that the three can be compared.
\<close>

definition have_shared_entities :: "MeshTopology \<Rightarrow> nat \<Rightarrow> error + bool" where
  "have_shared_entities t d = Inr (m_shared_entities t d \<noteq> None)"

text \<open>\<open>cell_owner()\<close> returns the stored vector.\<close>

definition cell_owner :: "MeshTopology \<Rightarrow> 32 word list" where
  "cell_owner t = m_cell_owner t"

text \<open>
  Modelled from the spec: \<open>init_global_indices(dim, size)\<close> is declared in
  MeshTopology.h and defined elsewhere. It initialises the storage for the global
  numbering of the entities of dimension \<open>dim\<close>: the slot of that dimension becomes a
  vector of \<open>size\<close> entries (zero here; no statement below depends on their value). A
  negative \<open>size\<close> cannot be allocated.
\<close>

definition init_global_indices ::
  "nat \<Rightarrow> 64 word \<Rightarrow> MeshTopology \<Rightarrow> error + MeshTopology" where
  "init_global_indices d sz t =
     dolfin_assert (d < length (m_global_indices t)) InvalidDimension
       (if sint sz < 0 then Inl (RuntimeError ''std::length_error'')
        else Inr (t\<lparr>m_global_indices := (m_global_indices t)[d := replicate (unat sz) 0]\<rparr>))"

text \<open>
  Modelled from the spec: \<open>size(dim)\<close> is declared in MeshTopology.h and defined
  elsewhere (the name \<open>size\<close> is taken in HOL, hence \<open>size_local\<close>). It returns the local number of entities of the dimension, the stored
  \<open>std::int32_t\<close> as the \<open>std::uint32_t\<close> of the declaration, and fails with an
  invalid-dimension condition when the dimension exceeds the initialised one, that is,
  when the vector of counts has no slot for it.
\<close>

definition size_local :: "MeshTopology \<Rightarrow> nat \<Rightarrow> error + 32 word" where
  "size_local t d =
     dolfin_assert (d < length (m_num_entities t)) InvalidDimension
       (Inr (m_num_entities t ! d))"

text \<open>
  Modelled from the spec: \<open>size_global(dim)\<close> is declared in MeshTopology.h and defined
  elsewhere. It returns the global number of entities of the dimension and fails with an
  invalid-dimension condition when the vector of global counts has no slot for it.
\<close>

definition size_global :: "MeshTopology \<Rightarrow> nat \<Rightarrow> error + 64 word" where
  "size_global t d =
     dolfin_assert (d < length (m_global_num_entities t)) InvalidDimension
       (Inr (m_global_num_entities t ! d))"

text \<open>
  Modelled from the spec: \<open>ghost_offset(dim)\<close> is declared in MeshTopology.h and defined
  elsewhere. It returns the index at which the ghost entities of the dimension begin,
  the stored \<open>std::size_t\<close> cut to the \<open>std::uint32_t\<close> of the declaration, and fails
  with an invalid-dimension condition when the vector of offsets has no slot for it.
\<close>

definition ghost_offset :: "MeshTopology \<Rightarrow> nat \<Rightarrow> error + 32 word" where
  "ghost_offset t d =
     dolfin_assert (d < length (m_ghost_offset_index t)) InvalidDimension
       (Inr (ucast (m_ghost_offset_index t ! d)))"

text \<open>
  Modelled from the spec: \<open>shared_entities(dim)\<close> is declared in MeshTopology.h and
  defined elsewhere. It fails with an invalid-dimension condition when the dimension
  exceeds the initialised one (the topology holds one count per dimension); otherwise
  it returns the map from the shared entities of the dimension to the processes that
  share them, which is empty when nothing has been recorded for the dimension. Only the
  value returned is modelled.
\<close>

definition shared_entities :: "MeshTopology \<Rightarrow> nat \<Rightarrow> error + (32 word \<rightharpoonup> 32 word set)" where
  "shared_entities t d =
     dolfin_assert (d < length (m_num_entities t)) InvalidDimension
       (Inr (case m_shared_entities t d of None \<Rightarrow> Map.empty | Some shared \<Rightarrow> shared))"

text \<open>
  Modelled from the spec: \<open>operator()(d0, d1)\<close> is declared in MeshTopology.h and
  defined elsewhere; it is \<open>connectivity\<close> here. It returns the connectivity of the ordered pair of dimensions and
  fails with an invalid-dimension condition when either dimension has no slot in the
  table of connectivities.
\<close>

definition connectivity :: "MeshTopology \<Rightarrow> nat \<Rightarrow> nat \<Rightarrow> error + MeshConnectivity" where
  "connectivity t d0 d1 =
     dolfin_assert (d0 < length (m_connectivity t)) InvalidDimension
       (dolfin_assert (d1 < length (m_connectivity t ! d0)) InvalidDimension
          (Inr (m_connectivity t ! d0 ! d1)))"

text \<open>
  A topology is of dimension \<open>n\<close> when each of its per-dimension vectors has the
  \<open>n + 1\<close> slots of the dimensions \<open>0, ..., n\<close> and its table of connectivities has
  \<open>n + 1\<close> rows of \<open>n + 1\<close> slots. A dimension argument exceeds the initialised
  dimension when it is above such an \<open>n\<close>.
\<close>

definition of_dimension :: "MeshTopology \<Rightarrow> nat \<Rightarrow> bool" where
  "of_dimension t n =
     (length (m_num_entities t) = Suc n \<and>
      length (m_ghost_offset_index t) = Suc n \<and>
      length (m_global_num_entities t) = Suc n \<and>
      length (m_global_indices t) = Suc n \<and>
      length (m_connectivity t) = Suc n \<and>
      list_all (\<lambda>row. length row = Suc n) (m_connectivity t))"

text \<open>
  A topology of dimension 2 as it stands once its per-dimension storage has been
  allocated and nothing computed: three slots in every per-dimension vector, no shared
  entities, no ghost cells, nine empty connectivity tables.
\<close>

definition topology2 :: MeshTopology where
  "topology2 =
     \<lparr> m_num_entities = [0, 0, 0],
       m_ghost_offset_index = [0, 0, 0],
       m_global_num_entities = [0, 0, 0],
       m_global_indices = [[], [], []],
       m_shared_entities = Map.empty,
       m_cell_owner = [],
       m_connectivity = [[[], [], []], [[], [], []], [[], [], []]] \<rparr>"

section \<open>OldXMLFile (the XML file adapter)\<close>

text \<open>
  What the adapter does to its output stream is recorded call by call. A stream knows
  whether its dynamic type is \<open>std::ofstream\<close> (what \<open>dynamic_cast\<close> tests), whether it
  is open, and what the XML writer has been asked to write to it. The SAX handler and
  the stack of XML handlers play no part in opening and closing a file and are left
  out of the record.
\<close>

datatype xml_output = WriteStart | WriteEnd

record ostream =
  is_ofstream :: bool
  is_open :: bool
  written :: "xml_output list"

record OldXMLFile =
  filename :: string
  outstream :: ostream

text \<open>
  The two constructors: from a file name (the stream is a new, unopened
  \<open>std::ofstream\<close>) and over a stream of the caller (the file name is empty).
\<close>

definition OldXMLFile_filename :: "string \<Rightarrow> OldXMLFile" where
  "OldXMLFile_filename name =
     \<lparr> filename = name,
       outstream = \<lparr> is_ofstream = True, is_open = False, written = [] \<rparr> \<rparr>"

definition OldXMLFile_ostream :: "ostream \<Rightarrow> OldXMLFile" where
  "OldXMLFile_ostream s = \<lparr> filename = [], outstream = s \<rparr>"

text \<open>
  \<open>boost::filesystem::extension(path)\<close>, a library function: of the last element of the
  path (what follows the last \<open>/\<close>), the part from its last dot on; empty when that
  element has no dot or is \<open>.\<close> or \<open>..\<close>.
\<close>

definition path_filename :: "string \<Rightarrow> string" where
  "path_filename p = rev (takeWhile (\<lambda>c. c \<noteq> CHR ''/'') (rev p))"

definition extension :: "string \<Rightarrow> string" where
  "extension p =
     (let name = path_filename p in
      if name = ''.'' \<or> name = ''..'' \<or> CHR ''.'' \<notin> set name then []
      else CHR ''.'' # rev (takeWhile (\<lambda>c. c \<noteq> CHR ''.'') (rev name)))"

text \<open>
  Modelled from the spec: \<open>XMLDolfin::write_start\<close> and \<open>XMLDolfin::write_end\<close> are
  defined outside these sources. They write the header and the footer of the XML
  exchange format to the stream; the model records that they were called.
\<close>

definition write_start :: "ostream \<Rightarrow> ostream" where
  "write_start s = s\<lparr>written := written s @ [WriteStart]\<rparr>"

definition write_end :: "ostream \<Rightarrow> ostream" where
  "write_end s = s\<lparr>written := written s @ [WriteEnd]\<rparr>"

text \<open>
  \<open>open_file\<close>: a file stream is opened on the file name (and positioned at its end);
  then the header is written. Whether the file system lets the file be opened is the
  argument \<open>opens\<close>: the source does not look at the outcome of \<open>open\<close>, and a stream
  whose \<open>open\<close> fails is open afterwards only if it was open before.
\<close>

definition open_file :: "bool \<Rightarrow> OldXMLFile \<Rightarrow> OldXMLFile" where
  "open_file opens f =
     (let s = outstream f;
          s1 = (if is_ofstream s then s\<lparr>is_open := (is_open s \<or> opens)\<rparr> else s)
      in f\<lparr>outstream := write_start s1\<rparr>)"

text \<open>
  \<open>close_file\<close>. The footer is written first. With the extension \<open>.gz\<close> the call
  raises through \<open>error\<close> (the logging function, defined outside these sources and
  modelled from the spec: the error is reported upward as fatal); the exception leaves
  the object as it is at that point, so the error comes with the state. Otherwise the
  stream is closed when it is a \<open>std::ofstream\<close>.
\<close>

definition close_file :: "OldXMLFile \<Rightarrow> (error \<times> OldXMLFile) + OldXMLFile" where
  "close_file f =
     (let f1 = f\<lparr>outstream := write_end (outstream f)\<rparr> in
      if extension (filename f) = ''.gz''
      then Inl (RuntimeError ''Compressed XML output not yet supported.'', f1)
      else if is_ofstream (outstream f1)
           then Inr (f1\<lparr>outstream := (outstream f1)\<lparr>is_open := False\<rparr>\<rparr>)
           else Inr f1)"

section \<open>Topology accessors and the dimension argument\<close>

lemma dolfin_assert_simps [simp]:
  "dolfin_assert True e rest = rest"
  "dolfin_assert False e rest = Inl e"
  by (simp_all add: dolfin_assert_def)

text \<open>
  C6, as the spec states it: every dimension-indexed accessor, \<open>have_shared_entities\<close>
  named in particular, fails with an invalid-dimension condition when its argument
  exceeds the initialised dimension. It does not hold of \<open>have_shared_entities\<close>: on a
  topology of dimension 2 the call with dimension 5 returns \<open>false\<close>.
\<close>

theorem have_shared_entities_returns_counterexample:
  "of_dimension topology2 2 \<and> have_shared_entities topology2 5 = Inr False"
  by (simp add: of_dimension_def topology2_def have_shared_entities_def)

text \<open>
  C6, amended: every dimension-indexed accessor other than \<open>have_shared_entities\<close>, that
  is \<open>size\<close>, \<open>size_global\<close>, \<open>ghost_offset\<close>, \<open>global_indices\<close>,
  \<open>have_global_indices\<close>, \<open>shared_entities\<close> and \<open>operator()\<close> (in either argument),
  fails with an invalid-dimension condition whenever its dimension argument exceeds the
  initialised dimension, and so does the mutator \<open>set_global_index\<close>;
  \<open>have_shared_entities\<close> does not fail for such an argument and returns whether the
  map of shared entities has an entry for it.
\<close>

theorem accessors_invalid_dimension:
  "of_dimension t n \<Longrightarrow> n < d \<Longrightarrow>
     size_local t d = Inl InvalidDimension \<and>
     size_global t d = Inl InvalidDimension \<and>
     ghost_offset t d = Inl InvalidDimension \<and>
     global_indices t d = Inl InvalidDimension \<and>
     have_global_indices t d = Inl InvalidDimension \<and>
     shared_entities t d = Inl InvalidDimension \<and>
     connectivity t d d' = Inl InvalidDimension \<and>
     connectivity t d' d = Inl InvalidDimension \<and>
     set_global_index d local_index global_index t = Inl InvalidDimension \<and>
     have_shared_entities t d = Inr (d \<in> dom (m_shared_entities t))"
proof -
  assume dim: "of_dimension t n" and d: "n < d"
  from dim d have slots:
    "\<not> d < length (m_num_entities t)" "\<not> d < length (m_global_num_entities t)"
    "\<not> d < length (m_ghost_offset_index t)" "\<not> d < length (m_global_indices t)"
    "\<not> d < length (m_connectivity t)"
    by (simp_all add: of_dimension_def)
  have row: "connectivity t d' d = Inl InvalidDimension"
  proof (cases "d' < length (m_connectivity t)")
    case True
    with dim have "length (m_connectivity t ! d') = Suc n"
      by (simp add: of_dimension_def list_all_length)
    with True d show ?thesis
      by (simp add: connectivity_def)
  next
    case False
    then show ?thesis
      by (simp add: connectivity_def)
  qed
  from slots row show ?thesis
    by (auto simp add: size_local_def size_global_def ghost_offset_def global_indices_def
        have_global_indices_def shared_entities_def connectivity_def set_global_index_def
        have_shared_entities_def)
qed

theorem accessors_invalid_dimension_witness:
  "of_dimension topology2 2 \<and> (2::nat) < 5 \<and>
   size_local topology2 5 = Inl InvalidDimension \<and>
   size_global topology2 5 = Inl InvalidDimension \<and>
   ghost_offset topology2 5 = Inl InvalidDimension \<and>
   global_indices topology2 5 = Inl InvalidDimension \<and>
   have_global_indices topology2 5 = Inl InvalidDimension \<and>
   shared_entities topology2 5 = Inl InvalidDimension \<and>
   connectivity topology2 5 0 = Inl InvalidDimension \<and>
   connectivity topology2 0 5 = Inl InvalidDimension \<and>
   set_global_index 5 0 7 topology2 = Inl InvalidDimension \<and>
   have_shared_entities topology2 5 = Inr False \<and>
   size_local topology2 2 = Inr 0 \<and>
   connectivity topology2 2 0 = Inr []"
proof -
  have h: "of_dimension topology2 2"
    by (simp add: of_dimension_def topology2_def)
  have e: "dom (m_shared_entities topology2) = {}"
    by (simp add: topology2_def)
  have r: "size_local topology2 2 = Inr 0" "connectivity topology2 2 0 = Inr []"
    by (simp_all add: size_local_def connectivity_def topology2_def)
  have d: "(2::nat) < 5"
    by simp
  show ?thesis
    using h e r accessors_invalid_dimension [OF h d, of 0 0 7] by simp
qed

section \<open>Global indices: computed but empty\<close>

text \<open>
  C10: for a dimension in range, \<open>have_global_indices\<close> returns true exactly when the
  stored vector has nonzero length. So right after \<open>init_global_indices(d, 0)\<close> it
  returns false and \<open>global_indices(d)\<close> is empty; and when the indices of \<open>d\<close> had
  not been computed before the call, the call leaves the topology as it was: at the
  interface, computed-but-empty and not-yet-computed are the same.
\<close>

theorem have_global_indices_iff_nonempty:
  "d < length (m_global_indices t) \<Longrightarrow>
     have_global_indices t d = Inr (length (m_global_indices t ! d) \<noteq> 0) \<and>
     (\<exists>t'. init_global_indices d 0 t = Inr t' \<and>
           have_global_indices t' d = Inr False \<and>
           global_indices t' d = Inr [] \<and>
           (m_global_indices t ! d = [] \<longrightarrow> t' = t))"
  by (auto simp add: have_global_indices_def init_global_indices_def global_indices_def
      list_update_same_conv)

theorem have_global_indices_iff_nonempty_witness:
  "(1::nat) < length (m_global_indices topology2) \<and>
   have_global_indices topology2 1 = Inr False \<and>
   init_global_indices 1 0 topology2 = Inr topology2 \<and>
   have_global_indices
     (topology2\<lparr>m_global_indices := [[], [4, 9], []]\<rparr>) 1 = Inr True"
proof -
  have h: "(1::nat) < length (m_global_indices topology2)"
    by (simp add: topology2_def)
  have h': "(1::nat) < length (m_global_indices (topology2\<lparr>m_global_indices := [[], [4, 9], []]\<rparr>))"
    by simp
  have e: "m_global_indices topology2 ! 1 = []"
    by (simp add: topology2_def)
  show ?thesis
    using h e have_global_indices_iff_nonempty [OF h] have_global_indices_iff_nonempty [OF h']
    by auto
qed

section \<open>Closing an XML file\<close>

text \<open>
  C9, as the spec states it: with any extension other than \<open>.gz\<close>, \<open>close_file\<close>
  completes by closing the file stream. An adapter built over a stream of the caller
  that is not a \<open>std::ofstream\<close> has the empty file name, hence no \<open>.gz\<close> extension,
  and \<open>close_file\<close> completes leaving that stream open.
\<close>

theorem close_file_leaves_stream_open_counterexample:
  "extension (filename (OldXMLFile_ostream
      \<lparr>is_ofstream = False, is_open = True, written = []\<rparr>)) \<noteq> ''.gz'' \<and>
   close_file (open_file True (OldXMLFile_ostream
      \<lparr>is_ofstream = False, is_open = True, written = []\<rparr>)) =
     Inr \<lparr>filename = [],
          outstream = \<lparr>is_ofstream = False, is_open = True,
                       written = [WriteStart, WriteEnd]\<rparr>\<rparr>"
  by (simp add: OldXMLFile_ostream_def open_file_def close_file_def extension_def
      path_filename_def write_start_def write_end_def Let_def)

text \<open>
  C9, amended: when the file name has the extension \<open>.gz\<close>, \<open>close_file\<close> writes the
  footer once and raises the error for unsupported compressed output, without closing
  the stream and without a second attempt; with any other extension it writes the
  footer and completes, closing the stream when it is a file stream and leaving any
  other stream as open as it was.
\<close>

theorem close_file_gz_error:
  "(extension (filename f) = ''.gz'' \<longrightarrow>
      close_file f = Inl (RuntimeError ''Compressed XML output not yet supported.'',
                          f\<lparr>outstream := write_end (outstream f)\<rparr>)) \<and>
   (extension (filename f) \<noteq> ''.gz'' \<longrightarrow>
      (\<exists>f'. close_file f = Inr f' \<and> filename f' = filename f \<and>
            written (outstream f') = written (outstream f) @ [WriteEnd] \<and>
            is_ofstream (outstream f') = is_ofstream (outstream f) \<and>
            is_open (outstream f') = (is_open (outstream f) \<and> \<not> is_ofstream (outstream f))))"
  by (auto simp add: close_file_def Let_def write_end_def)

theorem close_file_gz_error_witness:
  "extension ''out/mesh.xml.gz'' = ''.gz'' \<and>
   close_file (open_file True (OldXMLFile_filename ''out/mesh.xml.gz'')) =
     Inl (RuntimeError ''Compressed XML output not yet supported.'',
          \<lparr>filename = ''out/mesh.xml.gz'',
           outstream = \<lparr>is_ofstream = True, is_open = True,
                        written = [WriteStart, WriteEnd]\<rparr>\<rparr>) \<and>
   extension ''out/mesh.xml'' \<noteq> ''.gz'' \<and>
   close_file (open_file True (OldXMLFile_filename ''out/mesh.xml'')) =
     Inr \<lparr>filename = ''out/mesh.xml'',
          outstream = \<lparr>is_ofstream = True, is_open = False,
                       written = [WriteStart, WriteEnd]\<rparr>\<rparr>"
proof -
  have gz: "extension (filename (open_file True (OldXMLFile_filename ''out/mesh.xml.gz''))) = ''.gz''"
    by (simp add: OldXMLFile_filename_def open_file_def extension_def path_filename_def Let_def)
  have xml: "extension (filename (open_file True (OldXMLFile_filename ''out/mesh.xml''))) \<noteq> ''.gz''"
    by (simp add: OldXMLFile_filename_def open_file_def extension_def path_filename_def Let_def)
  have e1: "extension ''out/mesh.xml.gz'' = ''.gz''"
    by (simp add: extension_def path_filename_def Let_def)
  have e2: "extension ''out/mesh.xml'' \<noteq> ''.gz''"
    by (simp add: extension_def path_filename_def Let_def)
  from gz close_file_gz_error [of "open_file True (OldXMLFile_filename ''out/mesh.xml.gz'')"]
  have r1: "close_file (open_file True (OldXMLFile_filename ''out/mesh.xml.gz'')) =
     Inl (RuntimeError ''Compressed XML output not yet supported.'',
          \<lparr>filename = ''out/mesh.xml.gz'',
           outstream = \<lparr>is_ofstream = True, is_open = True,
                        written = [WriteStart, WriteEnd]\<rparr>\<rparr>)"
    by (simp add: OldXMLFile_filename_def open_file_def write_start_def write_end_def Let_def)
  from xml close_file_gz_error [of "open_file True (OldXMLFile_filename ''out/mesh.xml'')"]
  obtain f' where f': "close_file (open_file True (OldXMLFile_filename ''out/mesh.xml'')) = Inr f'"
    and "filename f' = ''out/mesh.xml''"
    and "written (outstream f') = [WriteStart, WriteEnd]"
    and "is_ofstream (outstream f')" and "\<not> is_open (outstream f')"
    by (auto simp add: OldXMLFile_filename_def open_file_def write_start_def Let_def)
  then have "f' = \<lparr>filename = ''out/mesh.xml'',
          outstream = \<lparr>is_ofstream = True, is_open = False,
                       written = [WriteStart, WriteEnd]\<rparr>\<rparr>"
    by (cases f', cases "outstream f'") auto
  with f' r1 e1 e2 show ?thesis by simp
qed

end
